theory Spec2Isabelle
  imports Main
begin

section \<open>Values exchanged with the browser\<close>

text \<open>
  The module \<^verbatim>\<open>src/app/lib/pdf2img.ts\<close> turns the first page of a PDF file into a PNG
  image inside a browser. Everything it calls (the PDF.js engine, the DOM, the canvas) is
  outside the repository, so the embedding takes the answers of these collaborators as
  parameters and follows the control flow of the source around them.

  A JavaScript string is modelled as a \<open>string\<close>, one \<open>char\<close> per code unit.
\<close>

type_synonym url = string

type_synonym blob = "nat list"

text \<open>
  A thrown value (or the reason of a rejected promise). \<open>ErrorObj name message\<close> is an
  instance of \<^verbatim>\<open>Error\<close>; \<open>NonError s\<close> is any other value except \<^verbatim>\<open>null\<close>
  and \<^verbatim>\<open>undefined\<close>, without a \<^verbatim>\<open>message\<close> property, whose conversion to a string
  is \<open>s\<close>: the \<^verbatim>\<open>Event\<close> handed to \<^verbatim>\<open>script.onerror\<close> is
  \<open>NonError ''[object Event]''\<close>. The reasons \<^verbatim>\<open>null\<close> and \<^verbatim>\<open>undefined\<close> are left out
  of the type: the collaborators throw errors and events, and reading \<^verbatim>\<open>.message\<close> of
  either (line 135) would itself throw.
\<close>

datatype thrown = ErrorObj string string | NonError string

text \<open>\<^verbatim>\<open>String(err)\<close> and \<^verbatim>\<open>`${err}`\<close>; for an \<^verbatim>\<open>Error\<close> this is
  \<^verbatim>\<open>Error.prototype.toString\<close>.\<close>

fun js_String :: "thrown \<Rightarrow> string" where
  "js_String (ErrorObj name message) =
     (if name = [] then message else if message = [] then name else name @ '': '' @ message)"
| "js_String (NonError s) = s"

text \<open>\<^verbatim>\<open>`${err.message}`\<close>: a missing property prints as \<^verbatim>\<open>undefined\<close>.\<close>

fun js_message :: "thrown \<Rightarrow> string" where
  "js_message (ErrorObj name message) = message"
| "js_message (NonError s) = ''undefined''"

text \<open>
  The final state of a promise: fulfilled with a value, rejected with a reason, or never
  settled. The same three outcomes describe how an awaited operation ends and how the body
  of an \<^verbatim>\<open>async\<close> function ends (it returns, it throws, or it stays suspended for ever).
\<close>

datatype 'a promise = Fulfilled 'a | Rejected thrown | Pending

text \<open>A synchronous call either returns or throws.\<close>

datatype 'a attempt = Returns 'a | Raises thrown

text \<open>\<^verbatim>\<open>const x = await p; k(x)\<close> inside a \<^verbatim>\<open>try\<close> block.\<close>

fun await :: "'a promise \<Rightarrow> ('a \<Rightarrow> 'b promise) \<Rightarrow> 'b promise" where
  "await (Fulfilled x) k = k x"
| "await (Rejected t) k = Rejected t"
| "await Pending k = Pending"

text \<open>\<^verbatim>\<open>const x = f(); k(x)\<close> inside a \<^verbatim>\<open>try\<close> block.\<close>

fun call :: "'a attempt \<Rightarrow> ('a \<Rightarrow> 'b promise) \<Rightarrow> 'b promise" where
  "call (Returns x) k = k x"
| "call (Raises t) k = Rejected t"

record File =
  file_name :: string
  file_type :: string
  file_bits :: blob

text \<open>What a caller can pass at run time: \<open>NotAFile\<close> is \<^verbatim>\<open>null\<close>,
  \<^verbatim>\<open>undefined\<close> or any value that is not an instance of \<^verbatim>\<open>File\<close>.\<close>

datatype js_input = NotAFile | AFile File

record PdfConversionResult =
  imageUrl :: string
  file' :: "File option"
  error :: "string option"

text \<open>The object literal \<^verbatim>\<open>{ imageUrl: "", file: null, error: msg }\<close> of every failing exit.\<close>

definition failed :: "string \<Rightarrow> PdfConversionResult" where
  "failed msg = \<lparr>imageUrl = [], file' = None, error = Some msg\<rparr>"

text \<open>
  The engine object (\<^verbatim>\<open>pdfjsLib\<close>): its optional \<^verbatim>\<open>version\<close> and the
  \<^verbatim>\<open>GlobalWorkerOptions.workerSrc\<close> the module configures.
\<close>

record engine =
  version :: "string option"
  workerSrc :: string

section \<open>File names\<close>

text \<open>
  \<^verbatim>\<open>String.prototype.toLowerCase\<close> on the code units below 256: the letters A to Z
  (65 to 90) and the accented capitals of Latin-1 (192 to 222, without the multiplication
  sign 215) move up by 32, every other code unit is kept.
\<close>

definition lower_char :: "char \<Rightarrow> char" where
  "lower_char c =
     (let n = (of_char c :: nat) in
      if (65 \<le> n \<and> n \<le> 90) \<or> (192 \<le> n \<and> n \<le> 222 \<and> n \<noteq> 215)
      then char_of (n + 32) else c)"

definition toLowerCase :: "string \<Rightarrow> string" where
  "toLowerCase s = map lower_char s"

definition endsWith :: "string \<Rightarrow> string \<Rightarrow> bool" where
  "endsWith s suffix =
     (length suffix \<le> length s \<and> drop (length s - length suffix) s = suffix)"

text \<open>Lines 88-89: \<^verbatim>\<open>file.type === 'application/pdf' || file.name.toLowerCase().endsWith('.pdf')\<close>.\<close>

definition isPdf :: "File \<Rightarrow> bool" where
  "isPdf f = (file_type f = ''application/pdf'' \<or> endsWith (toLowerCase (file_name f)) ''.pdf'')"

text \<open>
  The regular expression \<^verbatim>\<open>/\.pdf$/i\<close> matched at one position: a dot and the letters
  p, d, f in either case (the \<^verbatim>\<open>i\<close> flag without \<^verbatim>\<open>u\<close> folds ASCII letters only
  onto ASCII letters), followed by the end of the input.
\<close>

fun matches_dot_pdf :: "string \<Rightarrow> bool" where
  "matches_dot_pdf [a, b, c, d] =
     (a = CHR ''.'' \<and> (b = CHR ''p'' \<or> b = CHR ''P'') \<and> (c = CHR ''d'' \<or> c = CHR ''D'')
      \<and> (d = CHR ''f'' \<or> d = CHR ''F''))"
| "matches_dot_pdf s = False"

text \<open>Lines 219 and 354: \<^verbatim>\<open>file.name.replace(/\.pdf$/i, "")\<close>. The pattern is anchored at
  the end of the input, so the only place it can match is the last four code units.\<close>

definition replace_pdf_suffix :: "string \<Rightarrow> string" where
  "replace_pdf_suffix s =
     (if matches_dot_pdf (drop (length s - 4) s) then take (length s - 4) s else s)"

text \<open>Lines 220 and 355: \<^verbatim>\<open>`${originalName}.png`\<close>.\<close>

definition image_name :: "string \<Rightarrow> string" where
  "image_name s = replace_pdf_suffix s @ ''.png''"

text \<open>Lines 220-222 and 355-357: \<^verbatim>\<open>new File([blob], `${originalName}.png`, { type: "image/png" })\<close>.\<close>

definition image_file :: "File \<Rightarrow> blob \<Rightarrow> File" where
  "image_file f b = \<lparr>file_name = image_name (file_name f), file_type = ''image/png'', file_bits = b\<rparr>"

text \<open>
  \<^verbatim>\<open>URL.createObjectURL(blob)\<close> returns a blob URL: the scheme \<^verbatim>\<open>blob:\<close> followed by
  an origin and an identifier chosen by the browser.
\<close>

definition blob_url :: "string \<Rightarrow> url" where
  "blob_url ident = ''blob:'' @ ident"

text \<open>The object literal \<^verbatim>\<open>{ imageUrl, file: imageFile }\<close> of the successful exit
  (lines 227-230 and 359-362): \<^verbatim>\<open>error\<close> is not set.\<close>

definition converted :: "File \<Rightarrow> blob \<Rightarrow> string \<Rightarrow> PdfConversionResult" where
  "converted f b ident =
     \<lparr>imageUrl = blob_url ident, file' = Some (image_file f b), error = None\<rparr>"

section \<open>Module state and collaborators\<close>

text \<open>
  What engine acquisition does to the page, in the order it happens: an evaluation of
  \<^verbatim>\<open>import("pdfjs-dist/build/pdf.mjs")\<close> (line 21) and a
  \<^verbatim>\<open>document.head.appendChild(script)\<close> with the script's \<^verbatim>\<open>src\<close>
  (lines 60, 124 and 301).
\<close>

datatype acq_event = ModuleImport | ScriptAppended url

text \<open>
  The state shared by all calls: the module variables of lines 7-9, the global binding
  \<^verbatim>\<open>window.pdfjsLib\<close>, whether \<^verbatim>\<open>window\<close> exists at all, and the trace of
  acquisition events. \<open>loadPromise\<close> holds the promise with the state it ends in.
\<close>

record world =
  has_window :: bool
  window_pdfjsLib :: "engine option"
  pdfjsLib :: "engine option"
  isLoading :: bool
  loadPromise :: "engine promise option"
  events :: "acq_event list"

text \<open>
  What happens to an injected script element. \<open>InjectRaises\<close>:
  \<^verbatim>\<open>document.createElement\<close> or \<^verbatim>\<open>appendChild\<close> throws and no element is added.
  \<open>Loaded g\<close>: the load event fires; \<open>g\<close> is the engine the script has bound to
  \<^verbatim>\<open>window.pdfjsLib\<close>, if it has bound one. \<open>ScriptError\<close>: the error event fires.
  \<open>NoEvent\<close>: neither event ever fires.
\<close>

datatype script_outcome = InjectRaises thrown | Loaded "engine option" | ScriptError | NoEvent

text \<open>
  \<^verbatim>\<open>canvas.toBlob(callback, ...)\<close>: the callback is invoked with a blob or with
  \<^verbatim>\<open>null\<close>, it is never invoked, or \<^verbatim>\<open>toBlob\<close> itself throws.
\<close>

datatype toBlob_outcome = Callback "blob option" | NoCallback | ToBlobRaises thrown

text \<open>
  The answers of the collaborators during one call, one field per place the source asks:
  the script of lines 114-125, the import of line 21, the script of lines 48-60, the script
  of lines 280-301, then the stages of the rendering pipeline. \<open>getContext\<close> is
  \<^verbatim>\<open>document.createElement("canvas").getContext("2d")\<close>, \<open>True\<close> for a context and
  \<open>False\<close> for \<^verbatim>\<open>null\<close>; \<open>createObjectURL\<close> gives what follows the scheme of the
  blob URL.
\<close>

record env =
  cdn_script :: script_outcome
  module_import :: "engine promise"
  fallback_script :: script_outcome
  simple_script :: script_outcome
  arrayBuffer :: "blob promise"
  getDocument :: "unit promise"
  getPage :: "unit promise"
  getViewport :: "unit attempt"
  getContext :: "bool attempt"
  render :: "unit promise"
  toBlob :: toBlob_outcome
  newFile :: "unit attempt"
  createObjectURL :: "string attempt"

definition cdn_url :: url where
  "cdn_url = ''https://cdn.jsdelivr.net/npm/pdfjs-dist@3.11.174/build/pdf.min.js''"

definition cdn_worker_url :: url where
  "cdn_worker_url = ''https://cdn.jsdelivr.net/npm/pdfjs-dist@3.11.174/build/pdf.worker.min.js''"

definition cdnjs_url :: url where
  "cdnjs_url = ''https://cdnjs.cloudflare.com/ajax/libs/pdf.js/3.11.174/pdf.min.js''"

definition cdnjs_worker_url :: url where
  "cdnjs_worker_url = ''https://cdnjs.cloudflare.com/ajax/libs/pdf.js/3.11.174/pdf.worker.min.js''"

text \<open>Lines 24 and 28: \<^verbatim>\<open>lib.version || '3.11.174'\<close> (an empty string is falsy) inside the
  worker URL.\<close>

definition module_worker_url :: "engine \<Rightarrow> url" where
  "module_worker_url lib =
     ''https://cdn.jsdelivr.net/npm/pdfjs-dist@''
       @ (case version lib of None \<Rightarrow> ''3.11.174'' | Some v \<Rightarrow> if v = [] then ''3.11.174'' else v)
       @ ''/build/pdf.worker.min.js''"

text \<open>\<^verbatim>\<open>document.createElement('script')\<close> up to \<^verbatim>\<open>document.head.appendChild(script)\<close>:
  the synchronous part of an injection.\<close>

definition append_script :: "url \<Rightarrow> script_outcome \<Rightarrow> world \<Rightarrow> world" where
  "append_script u out w =
     (case out of
        InjectRaises t \<Rightarrow> w
      | Loaded g \<Rightarrow> w\<lparr>events := events w @ [ScriptAppended u]\<rparr>
      | ScriptError \<Rightarrow> w\<lparr>events := events w @ [ScriptAppended u]\<rparr>
      | NoEvent \<Rightarrow> w\<lparr>events := events w @ [ScriptAppended u]\<rparr>)"

text \<open>The script has run when its load event fires: the global binding is what the script
  made it, or what it was when the script binds nothing.\<close>

definition script_ran :: "engine option \<Rightarrow> world \<Rightarrow> world" where
  "script_ran g w = (case g of None \<Rightarrow> w | Some e \<Rightarrow> w\<lparr>window_pdfjsLib := Some e\<rparr>)"

section \<open>loadPdfJs\<close>

text \<open>
  Lines 17-68, the executor of \<open>loadPromise\<close>: the final state of the promise and the
  world it leaves. The promise is settled only by the calls of \<^verbatim>\<open>resolve\<close> and
  \<^verbatim>\<open>reject\<close> written in the source: lines 36, 56, 59 and 65.
\<close>

definition loadPdfJs_executor :: "env \<Rightarrow> world \<Rightarrow> engine promise \<times> world" where
  "loadPdfJs_executor en w =
     (let w1 = w\<lparr>events := events w @ [ModuleImport]\<rparr> in
      case module_import en of
        Fulfilled lib \<Rightarrow>
          (let lib' = lib\<lparr>workerSrc := module_worker_url lib\<rparr> in
           (Fulfilled lib', w1\<lparr>pdfjsLib := Some lib', isLoading := False\<rparr>))
      | Pending \<Rightarrow> (Pending, w1)
      | Rejected err \<Rightarrow>
          if has_window w1 then
            (let w2 = append_script cdn_url (fallback_script en) w1 in
             case fallback_script en of
               InjectRaises fallbackError \<Rightarrow> (Rejected err, w2\<lparr>isLoading := False\<rparr>)
             | ScriptError \<Rightarrow> (Rejected (NonError ''[object Event]''), w2)
             | NoEvent \<Rightarrow> (Pending, w2)
             | Loaded g \<Rightarrow>
                 (let w3 = script_ran g w2 in
                  case window_pdfjsLib w3 of
                    None \<Rightarrow> (Pending, w3)
                  | Some e \<Rightarrow>
                      (let e' = e\<lparr>workerSrc := cdn_worker_url\<rparr> in
                       (Fulfilled e',
                        w3\<lparr>window_pdfjsLib := Some e', pdfjsLib := Some e', isLoading := False\<rparr>))))
          else (Pending, w1))"

text \<open>Lines 11-71.\<close>

definition loadPdfJs :: "env \<Rightarrow> world \<Rightarrow> engine promise \<times> world" where
  "loadPdfJs en w =
     (case pdfjsLib w of
        Some lib \<Rightarrow> (Fulfilled lib, w)
      | None \<Rightarrow>
          (case loadPromise w of
             Some p \<Rightarrow> (p, w)
           | None \<Rightarrow>
               (let (p, w') = loadPdfJs_executor en (w\<lparr>isLoading := True\<rparr>)
                in (p, w'\<lparr>loadPromise := Some p\<rparr>))))"

section \<open>convertPdfToImage\<close>

text \<open>
  Lines 108-127, the first acquisition strategy of \<open>convertPdfToImage\<close>: the value of
  \<^verbatim>\<open>lib\<close> (\<open>None\<close> for \<^verbatim>\<open>undefined\<close>), a throw into \<^verbatim>\<open>catch (cdnError)\<close>, or
  a promise that nothing settles. When the load event fires and the global binding is
  missing, line 119 throws inside the event handler, so \<^verbatim>\<open>resolve\<close> is not reached.
\<close>

definition convertPdfToImage_cdn :: "env \<Rightarrow> world \<Rightarrow> engine option promise \<times> world" where
  "convertPdfToImage_cdn en w =
     (if has_window w then
        (case window_pdfjsLib w of
           Some lib \<Rightarrow> (Fulfilled (Some lib), w)
         | None \<Rightarrow>
             (let w1 = append_script cdn_url (cdn_script en) w in
              case cdn_script en of
                InjectRaises t \<Rightarrow> (Rejected t, w1)
              | ScriptError \<Rightarrow> (Rejected (NonError ''[object Event]''), w1)
              | NoEvent \<Rightarrow> (Pending, w1)
              | Loaded g \<Rightarrow>
                  (let w2 = script_ran g w1 in
                   case window_pdfjsLib w2 of
                     None \<Rightarrow> (Pending, w2)
                   | Some lib \<Rightarrow>
                       (let lib' = lib\<lparr>workerSrc := cdn_worker_url\<rparr> in
                        (Fulfilled (Some lib'), w2\<lparr>window_pdfjsLib := Some lib'\<rparr>)))))
      else (Fulfilled None, w))"

text \<open>Lines 102-137: the first strategy, then \<open>loadPdfJs\<close> in \<^verbatim>\<open>catch (cdnError)\<close>.\<close>

definition convertPdfToImage_acquire :: "env \<Rightarrow> world \<Rightarrow> engine option promise \<times> world" where
  "convertPdfToImage_acquire en w =
     (let (r, w1) = convertPdfToImage_cdn en w in
      case r of
        Fulfilled lib \<Rightarrow> (Fulfilled lib, w1)
      | Pending \<Rightarrow> (Pending, w1)
      | Rejected cdnError \<Rightarrow>
          (let (p, w2) = loadPdfJs en w1 in
           case p of
             Fulfilled lib \<Rightarrow> (Fulfilled (Some lib), w2)
           | Pending \<Rightarrow> (Pending, w2)
           | Rejected localError \<Rightarrow>
               (Rejected (ErrorObj ''Error'' (''Failed to load PDF.js: '' @ js_message localError)),
                w2)))"

text \<open>
  Lines 204-243, the promise returned last: it is rejected when \<^verbatim>\<open>toBlob\<close> throws inside
  the executor, and resolved by the callback otherwise.
\<close>

definition convertPdfToImage_toBlob :: "env \<Rightarrow> File \<Rightarrow> PdfConversionResult promise" where
  "convertPdfToImage_toBlob en f =
     (case toBlob en of
        ToBlobRaises t \<Rightarrow> Rejected t
      | NoCallback \<Rightarrow> Pending
      | Callback None \<Rightarrow> Fulfilled (failed ''Failed to create image from canvas'')
      | Callback (Some b) \<Rightarrow>
          (case newFile en of
             Raises fileError \<Rightarrow>
               Fulfilled (failed (''Failed to create image file: '' @ js_String fileError))
           | Returns u \<Rightarrow>
               (case createObjectURL en of
                  Raises fileError \<Rightarrow>
                    Fulfilled (failed (''Failed to create image file: '' @ js_String fileError))
                | Returns ident \<Rightarrow> Fulfilled (converted f b ident))))"

text \<open>
  Lines 147-243 inside the outer \<^verbatim>\<open>try\<close>: \<open>Fulfilled p\<close> when the block executes
  \<^verbatim>\<open>return p\<close> (a plain result is an already fulfilled \<open>p\<close>), \<open>Rejected t\<close> when it
  throws \<open>t\<close>.
\<close>

definition convertPdfToImage_pipeline :: "env \<Rightarrow> File \<Rightarrow> PdfConversionResult promise promise" where
  "convertPdfToImage_pipeline en f =
     await (arrayBuffer en) (\<lambda>buf.
       case getDocument en of
         Rejected pdfError \<Rightarrow>
           Fulfilled (Fulfilled (failed
             ''Failed to parse PDF file. It may be corrupted or password protected.''))
       | Pending \<Rightarrow> Pending
       | Fulfilled pdf \<Rightarrow>
           await (getPage en) (\<lambda>page.
             call (getViewport en) (\<lambda>viewport.
               call (getContext en) (\<lambda>ctx.
                 if \<not> ctx then Fulfilled (Fulfilled (failed ''Canvas context is not available''))
                 else await (render en) (\<lambda>u. Fulfilled (convertPdfToImage_toBlob en f))))))"

text \<open>Lines 77-244, the body of the outer \<^verbatim>\<open>try\<close>.\<close>

definition convertPdfToImage_try ::
  "env \<Rightarrow> world \<Rightarrow> js_input \<Rightarrow> PdfConversionResult promise promise \<times> world" where
  "convertPdfToImage_try en w inp =
     (case inp of
        NotAFile \<Rightarrow> (Fulfilled (Fulfilled (failed ''Invalid file provided'')), w)
      | AFile f \<Rightarrow>
          if \<not> isPdf f then (Fulfilled (Fulfilled (failed ''File is not a PDF'')), w)
          else
            (let (r, w1) = convertPdfToImage_acquire en w in
             case r of
               Rejected t \<Rightarrow> (Rejected t, w1)
             | Pending \<Rightarrow> (Pending, w1)
             | Fulfilled None \<Rightarrow> (Fulfilled (Fulfilled (failed ''PDF.js library failed to load'')), w1)
             | Fulfilled (Some lib) \<Rightarrow> (convertPdfToImage_pipeline en f, w1)))"

text \<open>Lines 248-253: \<^verbatim>\<open>err.message\<close> for an \<^verbatim>\<open>Error\<close>, \<^verbatim>\<open>String(err)\<close> otherwise.\<close>

fun errorMessage :: "thrown \<Rightarrow> string" where
  "errorMessage (ErrorObj name message) = ''Failed to convert PDF'' @ '': '' @ message"
| "errorMessage (NonError s) = ''Failed to convert PDF'' @ '': '' @ s"

text \<open>
  Lines 74-261. The promise of the call adopts the promise the body returns; only a throw
  inside the \<^verbatim>\<open>try\<close> reaches \<^verbatim>\<open>catch (err)\<close>.
\<close>

definition convertPdfToImage :: "env \<Rightarrow> world \<Rightarrow> js_input \<Rightarrow> PdfConversionResult promise \<times> world" where
  "convertPdfToImage en w inp =
     (let (body, w') = convertPdfToImage_try en w inp in
      case body of
        Fulfilled p \<Rightarrow> (p, w')
      | Pending \<Rightarrow> (Pending, w')
      | Rejected err \<Rightarrow> (Fulfilled (failed (errorMessage err)), w'))"

text \<open>
  The synchronous part of a call of \<open>convertPdfToImage\<close>: what it has done to the world
  when it reaches its first \<^verbatim>\<open>await\<close> (line 114 or line 147) or returns before one.
  A second call issued in the same turn of the event loop starts from this world, since
  no load or error event is delivered before the running code yields.
\<close>

definition convertPdfToImage_start :: "env \<Rightarrow> world \<Rightarrow> js_input \<Rightarrow> world" where
  "convertPdfToImage_start en w inp =
     (case inp of
        NotAFile \<Rightarrow> w
      | AFile f \<Rightarrow>
          if \<not> isPdf f then w
          else if has_window w then
            (case window_pdfjsLib w of
               Some lib \<Rightarrow> w
             | None \<Rightarrow> append_script cdn_url (cdn_script en) w)
          else w)"

section \<open>convertPdfToImageSimple and performConversion\<close>

text \<open>
  Lines 350-374: the callback has no \<^verbatim>\<open>try\<close>, so a throw of \<^verbatim>\<open>new File\<close> or of
  \<^verbatim>\<open>URL.createObjectURL\<close> leaves the promise unsettled.
\<close>

definition performConversion_toBlob :: "env \<Rightarrow> File \<Rightarrow> PdfConversionResult promise" where
  "performConversion_toBlob en f =
     (case toBlob en of
        ToBlobRaises t \<Rightarrow> Rejected t
      | NoCallback \<Rightarrow> Pending
      | Callback None \<Rightarrow> Fulfilled (failed ''Failed to create image'')
      | Callback (Some b) \<Rightarrow>
          (case newFile en of
             Raises t \<Rightarrow> Pending
           | Returns u \<Rightarrow>
               (case createObjectURL en of
                  Raises t \<Rightarrow> Pending
                | Returns ident \<Rightarrow> Fulfilled (converted f b ident))))"

text \<open>Lines 328-374, the body of the \<^verbatim>\<open>try\<close>.\<close>

definition performConversion_try :: "env \<Rightarrow> File \<Rightarrow> PdfConversionResult promise promise" where
  "performConversion_try en f =
     await (arrayBuffer en) (\<lambda>buf.
       await (getDocument en) (\<lambda>pdf.
         await (getPage en) (\<lambda>page.
           call (getViewport en) (\<lambda>viewport.
             call (getContext en) (\<lambda>ctx.
               if \<not> ctx then Fulfilled (Fulfilled (failed ''Canvas context not available''))
               else await (render en) (\<lambda>u. Fulfilled (performConversion_toBlob en f)))))))"

text \<open>Lines 317-382. Line 318 reads \<^verbatim>\<open>window\<close> before the \<^verbatim>\<open>try\<close>: without a window
  this throws a \<^verbatim>\<open>ReferenceError\<close> that nothing in the function catches.\<close>

definition performConversion :: "env \<Rightarrow> world \<Rightarrow> File \<Rightarrow> PdfConversionResult promise" where
  "performConversion en w f =
     (if \<not> has_window w then Rejected (ErrorObj ''ReferenceError'' ''window is not defined'')
      else
        (case window_pdfjsLib w of
           None \<Rightarrow> Fulfilled (failed ''PDF.js not loaded'')
         | Some lib \<Rightarrow>
             (case performConversion_try en f of
                Fulfilled p \<Rightarrow> p
              | Pending \<Rightarrow> Pending
              | Rejected err \<Rightarrow> Fulfilled (failed (''Conversion error: '' @ js_String err)))))"

text \<open>
  Lines 264-315. The returned promise is settled only by \<^verbatim>\<open>resolve\<close>. In the load
  handler (lines 283-291) nothing catches: when line 285 throws because the global binding
  is missing, or when \<open>performConversion\<close> rejects, \<^verbatim>\<open>resolve\<close> is not reached.
\<close>

definition convertPdfToImageSimple :: "env \<Rightarrow> world \<Rightarrow> File \<Rightarrow> PdfConversionResult promise \<times> world" where
  "convertPdfToImageSimple en w f =
     (if \<not> has_window w then (Fulfilled (failed ''Window is not available''), w)
      else
        (case window_pdfjsLib w of
           Some lib \<Rightarrow>
             (case performConversion en w f of
                Fulfilled r \<Rightarrow> (Fulfilled r, w)
              | Pending \<Rightarrow> (Pending, w)
              | Rejected err \<Rightarrow> (Fulfilled (failed (''Conversion failed: '' @ js_String err)), w))
         | None \<Rightarrow>
             (let w1 = append_script cdnjs_url (simple_script en) w in
              case simple_script en of
                InjectRaises err \<Rightarrow> (Fulfilled (failed (''Conversion failed: '' @ js_String err)), w1)
              | ScriptError \<Rightarrow> (Fulfilled (failed ''Failed to load PDF.js library''), w1)
              | NoEvent \<Rightarrow> (Pending, w1)
              | Loaded g \<Rightarrow>
                  (let w2 = script_ran g w1 in
                   case window_pdfjsLib w2 of
                     None \<Rightarrow> (Pending, w2)
                   | Some lib \<Rightarrow>
                       (let w3 = w2\<lparr>window_pdfjsLib := Some (lib\<lparr>workerSrc := cdnjs_worker_url\<rparr>)\<rparr> in
                        case performConversion en w3 f of
                          Fulfilled r \<Rightarrow> (Fulfilled r, w3)
                        | Pending \<Rightarrow> (Pending, w3)
                        | Rejected err \<Rightarrow> (Pending, w3))))))"

section \<open>Properties of results, traces and collaborators\<close>

text \<open>The two shapes of a result: a success carries a non-empty URL and a file and no
  error; a failure carries an error, the empty URL and no file.\<close>

definition is_success :: "PdfConversionResult \<Rightarrow> bool" where
  "is_success r = (imageUrl r \<noteq> [] \<and> file' r \<noteq> None \<and> error r = None)"

definition is_failure :: "PdfConversionResult \<Rightarrow> bool" where
  "is_failure r = (error r \<noteq> None \<and> imageUrl r = [] \<and> file' r = None)"

definition exactly_one_shape :: "PdfConversionResult \<Rightarrow> bool" where
  "exactly_one_shape r = (is_success r \<noteq> is_failure r)"

text \<open>The acquisition events a call has added to the trace.\<close>

definition emitted :: "world \<Rightarrow> world \<Rightarrow> acq_event list" where
  "emitted w w' = drop (length (events w)) (events w')"



fun inject_raises :: "script_outcome \<Rightarrow> bool" where
  "inject_raises (InjectRaises t) = True"
| "inject_raises (Loaded g) = False"
| "inject_raises ScriptError = False"
| "inject_raises NoEvent = False"

text \<open>The script strategy has failed: the injection threw or the error event fired.\<close>

fun script_failed :: "script_outcome \<Rightarrow> bool" where
  "script_failed (InjectRaises t) = True"
| "script_failed (Loaded g) = False"
| "script_failed ScriptError = True"
| "script_failed NoEvent = False"

section \<open>Concrete pages, files and collaborators\<close>

text \<open>A page on which nothing has been loaded: lines 7-9 and an empty document head.\<close>

definition fresh_world :: world where
  "fresh_world =
     \<lparr>has_window = True, window_pdfjsLib = None, pdfjsLib = None, isLoading = False,
      loadPromise = None, events = []\<rparr>"

definition script_engine :: engine where
  "script_engine = \<lparr>version = Some ''3.11.174'', workerSrc = []\<rparr>"

definition module_engine :: engine where
  "module_engine = \<lparr>version = Some ''4.8.69'', workerSrc = []\<rparr>"

definition report_pdf :: File where
  "report_pdf = \<lparr>file_name = ''report.PDF'', file_type = ''application/pdf'', file_bits = [37, 80, 68, 70]\<rparr>"

definition a_pdf_pdf :: File where
  "a_pdf_pdf = \<lparr>file_name = ''a.pdf.pdf'', file_type = ''application/pdf'', file_bits = [37, 80, 68, 70]\<rparr>"

definition doc :: File where
  "doc = \<lparr>file_name = ''doc'', file_type = ''application/pdf'', file_bits = [37, 80, 68, 70]\<rparr>"

definition notes_txt :: File where
  "notes_txt = \<lparr>file_name = ''notes.txt'', file_type = ''text/plain'', file_bits = [104, 105]\<rparr>"

definition png :: blob where
  "png = [137, 80, 78, 71]"

text \<open>Every collaborator works: scripts load and bind the engine, the import resolves, the
  pipeline renders and encodes.\<close>

definition working :: env where
  "working =
     \<lparr>cdn_script = Loaded (Some script_engine), module_import = Fulfilled module_engine,
      fallback_script = Loaded (Some script_engine), simple_script = Loaded (Some script_engine),
      arrayBuffer = Fulfilled [37, 80, 68, 70], getDocument = Fulfilled (), getPage = Fulfilled (),
      getViewport = Returns (), getContext = Returns True, render = Fulfilled (),
      toBlob = Callback (Some png), newFile = Returns (),
      createObjectURL = Returns ''http://localhost:3000/5c1d''\<rparr>"

text \<open>The jsDelivr host cannot be reached (its scripts fire the error event); the bundled
  module imports.\<close>

definition cdn_down :: env where
  "cdn_down = working\<lparr>cdn_script := ScriptError, fallback_script := ScriptError\<rparr>"

text \<open>No strategy works: the scripts fire the error event and the import rejects.\<close>

definition nothing_loads :: env where
  "nothing_loads =
     cdn_down\<lparr>module_import := Rejected (ErrorObj ''TypeError'' ''Failed to fetch dynamically imported module'')\<rparr>"

text \<open>As \<open>nothing_loads\<close>, but the fallback injection of line 48 or 60 throws.\<close>

definition fallback_throws :: env where
  "fallback_throws =
     nothing_loads\<lparr>fallback_script := InjectRaises (ErrorObj ''TypeError'' ''document.head is null'')\<rparr>"

text \<open>The first script fails, the import rejects, and the fallback script loads without
  binding \<^verbatim>\<open>window.pdfjsLib\<close>.\<close>

definition fallback_binds_nothing :: env where
  "fallback_binds_nothing = nothing_loads\<lparr>fallback_script := Loaded None\<rparr>"

text \<open>\<^verbatim>\<open>canvas.toBlob\<close> throws.\<close>

definition toBlob_throws :: env where
  "toBlob_throws = working\<lparr>toBlob := ToBlobRaises (ErrorObj ''SecurityError'' ''The operation is insecure.'')\<rparr>"

text \<open>The injected scripts fire their load event without binding
  \<^verbatim>\<open>window.pdfjsLib\<close>.\<close>

definition binds_nothing :: env where
  "binds_nothing = working\<lparr>cdn_script := Loaded None, simple_script := Loaded None\<rparr>"

text \<open>\<^verbatim>\<open>new File\<close> throws.\<close>

definition newFile_throws :: env where
  "newFile_throws = working\<lparr>newFile := Raises (ErrorObj ''TypeError'' ''Illegal constructor'')\<rparr>"

text \<open>The engine rejects the bytes.\<close>

definition not_a_document :: env where
  "not_a_document =
     working\<lparr>getDocument := Rejected (ErrorObj ''InvalidPDFException'' ''Invalid PDF structure.'')\<rparr>"

section \<open>Lemmas on file names\<close>

lemma lower_char_eq:
  "lower_char c = d \<longleftrightarrow>
     (if (65 \<le> (of_char c :: nat) \<and> (of_char c :: nat) \<le> 90)
         \<or> (192 \<le> (of_char c :: nat) \<and> (of_char c :: nat) \<le> 222 \<and> (of_char c :: nat) \<noteq> 215)
      then (of_char c :: nat) + 32 = of_char d else c = d)"
  by (simp add: lower_char_def Let_def char_of_eq_iff take_bit_eq_mod)

lemma char_code:
  "(c = CHR ''.'') = ((of_char c :: nat) = 46)"
  "(c = CHR ''p'') = ((of_char c :: nat) = 112)"
  "(c = CHR ''P'') = ((of_char c :: nat) = 80)"
  "(c = CHR ''d'') = ((of_char c :: nat) = 100)"
  "(c = CHR ''D'') = ((of_char c :: nat) = 68)"
  "(c = CHR ''f'') = ((of_char c :: nat) = 102)"
  "(c = CHR ''F'') = ((of_char c :: nat) = 70)"
  by (simp_all flip: of_char_eq_iff [where ?'a = nat])

lemma lower_char_letters:
  "lower_char c = CHR ''.'' \<longleftrightarrow> c = CHR ''.''"
  "lower_char c = CHR ''p'' \<longleftrightarrow> c = CHR ''p'' \<or> c = CHR ''P''"
  "lower_char c = CHR ''d'' \<longleftrightarrow> c = CHR ''d'' \<or> c = CHR ''D''"
  "lower_char c = CHR ''f'' \<longleftrightarrow> c = CHR ''f'' \<or> c = CHR ''F''"
  unfolding lower_char_eq by (auto simp add: char_code)

lemma matches_dot_pdf_iff: "matches_dot_pdf s \<longleftrightarrow> toLowerCase s = ''.pdf''"
  by (cases s rule: matches_dot_pdf.cases)
     (auto simp add: toLowerCase_def lower_char_letters)

lemma length_toLowerCase: "length (toLowerCase s) = length s"
  by (simp add: toLowerCase_def)

lemma replace_pdf_suffix_strips:
  "toLowerCase ext = ''.pdf'' \<Longrightarrow> replace_pdf_suffix (base @ ext) = base"
proof -
  assume a: "toLowerCase ext = ''.pdf''"
  then have "length (toLowerCase ext) = 4" by simp
  then have l: "length ext = 4" by (simp add: length_toLowerCase)
  with a show ?thesis
    by (simp add: replace_pdf_suffix_def matches_dot_pdf_iff)
qed

lemma endsWith_dot_pdf:
  "endsWith s ''.pdf'' \<longleftrightarrow> 4 \<le> length s \<and> drop (length s - 4) s = ''.pdf''"
proof -
  have "length ''.pdf'' = 4" by simp
  then show ?thesis unfolding endsWith_def by (simp only:)
qed

lemma endsWith_toLowerCase:
  "endsWith (toLowerCase s) ''.pdf'' \<longleftrightarrow> matches_dot_pdf (drop (length s - 4) s)"
proof (cases "4 \<le> length s")
  case True
  then show ?thesis
    by (simp add: endsWith_dot_pdf matches_dot_pdf_iff toLowerCase_def drop_map)
next
  case False
  then have "length (toLowerCase (drop (length s - 4) s)) \<noteq> 4"
    by (simp add: length_toLowerCase)
  then have "toLowerCase (drop (length s - 4) s) \<noteq> ''.pdf''"
    by auto
  with False show ?thesis
    by (simp add: endsWith_dot_pdf matches_dot_pdf_iff length_toLowerCase)
qed

lemma replace_pdf_suffix_keeps:
  "\<not> endsWith (toLowerCase s) ''.pdf'' \<Longrightarrow> replace_pdf_suffix s = s"
  by (simp add: replace_pdf_suffix_def endsWith_toLowerCase)

section \<open>Lemmas on results\<close>

lemma await_Fulfilled [simp]:
  "await p k = Fulfilled r \<longleftrightarrow> (\<exists>x. p = Fulfilled x \<and> k x = Fulfilled r)"
  by (cases p) simp_all

lemma await_Rejected [simp]:
  "await p k = Rejected t \<longleftrightarrow> p = Rejected t \<or> (\<exists>x. p = Fulfilled x \<and> k x = Rejected t)"
  by (cases p) auto

lemma await_Pending [simp]:
  "await p k = Pending \<longleftrightarrow> p = Pending \<or> (\<exists>x. p = Fulfilled x \<and> k x = Pending)"
  by (cases p) auto

lemma call_Fulfilled [simp]:
  "call a k = Fulfilled r \<longleftrightarrow> (\<exists>x. a = Returns x \<and> k x = Fulfilled r)"
  by (cases a) simp_all

lemma call_Rejected [simp]:
  "call a k = Rejected t \<longleftrightarrow> a = Raises t \<or> (\<exists>x. a = Returns x \<and> k x = Rejected t)"
  by (cases a) auto

lemma call_Pending [simp]:
  "call a k = Pending \<longleftrightarrow> (\<exists>x. a = Returns x \<and> k x = Pending)"
  by (cases a) auto

text \<open>Every fulfilled result is one of the two object literals of the source.\<close>

lemma convertPdfToImage_toBlob_shape:
  "convertPdfToImage_toBlob en f = Fulfilled r \<Longrightarrow>
     (\<exists>msg. r = failed msg) \<or> (\<exists>b ident. r = converted f b ident)"
  by (auto simp add: convertPdfToImage_toBlob_def
      split: toBlob_outcome.splits option.splits attempt.splits)

lemma convertPdfToImage_pipeline_shape:
  "convertPdfToImage_pipeline en f = Fulfilled p \<Longrightarrow> p = Fulfilled r \<Longrightarrow>
     (\<exists>msg. r = failed msg) \<or> (\<exists>b ident. r = converted f b ident)"
  by (auto simp add: convertPdfToImage_pipeline_def
      dest: convertPdfToImage_toBlob_shape split: promise.splits if_splits)

lemma convertPdfToImage_shape:
  "fst (convertPdfToImage en w inp) = Fulfilled r \<Longrightarrow>
     (\<exists>msg. r = failed msg) \<or> (\<exists>f b ident. inp = AFile f \<and> r = converted f b ident)"
  by (auto simp add: convertPdfToImage_def convertPdfToImage_try_def
      dest: convertPdfToImage_pipeline_shape
      split: prod.splits promise.splits js_input.splits if_splits option.splits)

lemma performConversion_toBlob_shape:
  "performConversion_toBlob en f = Fulfilled r \<Longrightarrow>
     (\<exists>msg. r = failed msg) \<or> (\<exists>b ident. r = converted f b ident)"
  by (auto simp add: performConversion_toBlob_def
      split: toBlob_outcome.splits option.splits attempt.splits)

lemma performConversion_try_shape:
  "performConversion_try en f = Fulfilled p \<Longrightarrow> p = Fulfilled r \<Longrightarrow>
     (\<exists>msg. r = failed msg) \<or> (\<exists>b ident. r = converted f b ident)"
  by (auto simp add: performConversion_try_def
      dest: performConversion_toBlob_shape split: if_splits)

lemma performConversion_shape:
  "performConversion en w f = Fulfilled r \<Longrightarrow>
     (\<exists>msg. r = failed msg) \<or> (\<exists>b ident. r = converted f b ident)"
  by (auto simp add: performConversion_def
      dest: performConversion_try_shape split: option.splits promise.splits if_splits)

lemma convertPdfToImageSimple_shape:
  "fst (convertPdfToImageSimple en w f) = Fulfilled r \<Longrightarrow>
     (\<exists>msg. r = failed msg) \<or> (\<exists>b ident. r = converted f b ident)"
  by (auto simp add: convertPdfToImageSimple_def Let_def
      dest: performConversion_shape
      split: option.splits promise.splits script_outcome.splits if_splits)

lemma exactly_one_shape_failed: "exactly_one_shape (failed msg)"
  by (simp add: exactly_one_shape_def is_success_def is_failure_def failed_def)

lemma exactly_one_shape_converted: "exactly_one_shape (converted f b ident)"
  by (simp add: exactly_one_shape_def is_success_def is_failure_def converted_def blob_url_def)

section \<open>Evaluation\<close>

lemmas model_defs =
  convertPdfToImage_def convertPdfToImage_try_def convertPdfToImage_acquire_def
  convertPdfToImage_cdn_def convertPdfToImage_pipeline_def convertPdfToImage_toBlob_def
  loadPdfJs_def loadPdfJs_executor_def append_script_def script_ran_def
  convertPdfToImageSimple_def performConversion_def performConversion_try_def
  performConversion_toBlob_def convertPdfToImage_start_def emitted_def Let_def isPdf_def

lemmas data_defs =
  fresh_world_def working_def cdn_down_def nothing_loads_def fallback_throws_def
  fallback_binds_nothing_def toBlob_throws_def binds_nothing_def newFile_throws_def
  not_a_document_def
  report_pdf_def a_pdf_pdf_def doc_def notes_txt_def script_engine_def module_engine_def png_def

lemma working_converts:
  "fst (convertPdfToImage working fresh_world (AFile report_pdf)) =
     Fulfilled (converted report_pdf png ''http://localhost:3000/5c1d'')"
  by (simp add: model_defs data_defs)

lemma not_a_document_simple:
  "fst (convertPdfToImageSimple not_a_document fresh_world notes_txt) =
     Fulfilled (failed ''Conversion error: InvalidPDFException: Invalid PDF structure.'')"
  by (simp add: model_defs data_defs)

lemma working_performs:
  "performConversion working (fresh_world\<lparr>window_pdfjsLib := Some script_engine\<rparr>) report_pdf =
     Fulfilled (converted report_pdf png ''http://localhost:3000/5c1d'')"
  by (simp add: model_defs data_defs)

lemma working_converts_a_pdf_pdf:
  "fst (convertPdfToImage working fresh_world (AFile a_pdf_pdf)) =
     Fulfilled (converted a_pdf_pdf png ''http://localhost:3000/5c1d'')"
  by (simp add: model_defs data_defs)

lemma working_converts_doc:
  "fst (convertPdfToImage working fresh_world (AFile doc)) =
     Fulfilled (converted doc png ''http://localhost:3000/5c1d'')"
  by (simp add: model_defs data_defs)



lemma cdn_down_converts:
  "fst (convertPdfToImage cdn_down fresh_world (AFile report_pdf)) =
     Fulfilled (converted report_pdf png ''http://localhost:3000/5c1d'')"
  by (simp add: model_defs data_defs)

lemma fallback_binds_nothing_pending:
  "fst (convertPdfToImage fallback_binds_nothing fresh_world (AFile report_pdf)) = Pending"
  by (simp add: model_defs data_defs)

section \<open>Lemmas on the acquisition trace\<close>

lemma convertPdfToImage_world:
  "snd (convertPdfToImage en w inp) =
     (case inp of NotAFile \<Rightarrow> w
      | AFile f \<Rightarrow> if isPdf f then snd (convertPdfToImage_acquire en w) else w)"
  by (simp add: convertPdfToImage_def convertPdfToImage_try_def
      split: js_input.splits prod.splits promise.splits option.splits)

lemma emitted_self [simp]: "emitted w w = []"
  by (simp add: emitted_def)

text \<open>What \<open>loadPdfJs\<close> adds to the trace.\<close>

lemma loadPdfJs_events:
  "events (snd (loadPdfJs en w)) = events w
   \<or> (pdfjsLib w = None \<and> loadPromise w = None
      \<and> loadPromise (snd (loadPdfJs en w)) \<noteq> None
      \<and> (events (snd (loadPdfJs en w)) = events w @ [ModuleImport]
         \<or> (events (snd (loadPdfJs en w)) = events w @ [ModuleImport, ScriptAppended cdn_url]
            \<and> (\<exists>err. module_import en = Rejected err))))"
  by (auto simp add: loadPdfJs_def loadPdfJs_executor_def append_script_def script_ran_def Let_def
      split: option.splits promise.splits script_outcome.splits prod.splits)


text \<open>What the first strategy adds to the trace.\<close>

lemma convertPdfToImage_cdn_events:
  "events (snd (convertPdfToImage_cdn en w)) =
     (if has_window w \<and> window_pdfjsLib w = None \<and> \<not> inject_raises (cdn_script en)
      then events w @ [ScriptAppended cdn_url] else events w)"
  by (auto simp add: convertPdfToImage_cdn_def append_script_def script_ran_def Let_def
      split: option.splits script_outcome.splits)

lemma convertPdfToImage_cdn_Rejected:
  "fst (convertPdfToImage_cdn en w) = Rejected t \<Longrightarrow>
     script_failed (cdn_script en) \<and> has_window w \<and> window_pdfjsLib w = None
     \<and> has_window (snd (convertPdfToImage_cdn en w))
     \<and> window_pdfjsLib (snd (convertPdfToImage_cdn en w)) = None
     \<and> pdfjsLib (snd (convertPdfToImage_cdn en w)) = pdfjsLib w
     \<and> loadPromise (snd (convertPdfToImage_cdn en w)) = loadPromise w"
  by (auto simp add: convertPdfToImage_cdn_def append_script_def script_ran_def Let_def
      split: option.splits script_outcome.splits if_splits)

lemma convertPdfToImage_cdn_present:
  "window_pdfjsLib w \<noteq> None \<Longrightarrow> snd (convertPdfToImage_cdn en w) = w"
  by (auto simp add: convertPdfToImage_cdn_def)

lemma convertPdfToImage_acquire_world:
  "snd (convertPdfToImage_acquire en w) =
     (case fst (convertPdfToImage_cdn en w) of
        Rejected t \<Rightarrow> snd (loadPdfJs en (snd (convertPdfToImage_cdn en w)))
      | Fulfilled lib \<Rightarrow> snd (convertPdfToImage_cdn en w)
      | Pending \<Rightarrow> snd (convertPdfToImage_cdn en w))"
  by (simp add: convertPdfToImage_acquire_def split: prod.splits promise.splits)



lemma extends_emitted: "events w' = events w @ evs \<Longrightarrow> events w' = events w @ emitted w w'"
  by (simp add: emitted_def)

lemma loadPdfJs_extends: "events (snd (loadPdfJs en w)) = events w @ emitted w (snd (loadPdfJs en w))"
proof -
  from loadPdfJs_events [of en w] consider
    "events (snd (loadPdfJs en w)) = events w @ []"
    | "events (snd (loadPdfJs en w)) = events w @ [ModuleImport]"
    | "events (snd (loadPdfJs en w)) = events w @ [ModuleImport, ScriptAppended cdn_url]"
    by auto
  then show ?thesis by cases (erule extends_emitted)+
qed

lemma convertPdfToImage_cdn_extends:
  "events (snd (convertPdfToImage_cdn en w)) = events w @ emitted w (snd (convertPdfToImage_cdn en w))"
proof -
  have "events (snd (convertPdfToImage_cdn en w)) = events w @ []
        \<or> events (snd (convertPdfToImage_cdn en w)) = events w @ [ScriptAppended cdn_url]"
    by (simp add: convertPdfToImage_cdn_events)
  then show ?thesis by (rule disjE) (erule extends_emitted)+
qed

lemma emitted_trans:
  "events w1 = events w @ emitted w w1 \<Longrightarrow> events w2 = events w1 @ emitted w1 w2 \<Longrightarrow>
     events w2 = events w @ emitted w w2 \<and> emitted w w2 = emitted w w1 @ emitted w1 w2"
proof -
  assume a: "events w1 = events w @ emitted w w1" and b: "events w2 = events w1 @ emitted w1 w2"
  then have c: "events w2 = events w @ (emitted w w1 @ emitted w1 w2)"
    by (metis append.assoc)
  then have "emitted w w2 = emitted w w1 @ emitted w1 w2"
    unfolding emitted_def [of w w2] by (simp only: append_eq_conv_conj length_append drop_append, simp)
  with c show ?thesis by simp
qed

lemma convertPdfToImage_acquire_extends:
  "events (snd (convertPdfToImage_acquire en w)) =
          events w @ emitted w (snd (convertPdfToImage_acquire en w))"
proof (cases "fst (convertPdfToImage_cdn en w)")
  case (Rejected t)
  then have w: "snd (convertPdfToImage_acquire en w) =
      snd (loadPdfJs en (snd (convertPdfToImage_cdn en w)))"
    by (simp add: convertPdfToImage_acquire_world)
  from emitted_trans [OF convertPdfToImage_cdn_extends loadPdfJs_extends]
  show ?thesis unfolding w by blast
next
  case (Fulfilled lib)
  then have w: "snd (convertPdfToImage_acquire en w) = snd (convertPdfToImage_cdn en w)"
    by (simp add: convertPdfToImage_acquire_world)
  show ?thesis unfolding w by (rule convertPdfToImage_cdn_extends)
next
  case Pending
  then have w: "snd (convertPdfToImage_acquire en w) = snd (convertPdfToImage_cdn en w)"
    by (simp add: convertPdfToImage_acquire_world)
  show ?thesis unfolding w by (rule convertPdfToImage_cdn_extends)
qed

lemma convertPdfToImage_extends:
  "events (snd (convertPdfToImage en w inp)) = events w @ emitted w (snd (convertPdfToImage en w inp))"
proof (cases "\<exists>f. inp = AFile f \<and> isPdf f")
  case True
  then have w: "snd (convertPdfToImage en w inp) = snd (convertPdfToImage_acquire en w)"
    by (auto simp add: convertPdfToImage_world)
  show ?thesis unfolding w by (rule convertPdfToImage_acquire_extends)
next
  case False
  then have w: "snd (convertPdfToImage en w inp) = w"
    by (auto simp add: convertPdfToImage_world split: js_input.splits)
  show ?thesis unfolding w by simp
qed

section \<open>Lemmas on how a call ends\<close>

lemma convertPdfToImage_acquire_result:
  "fst (convertPdfToImage_acquire en w) =
     (case fst (convertPdfToImage_cdn en w) of
        Fulfilled lib \<Rightarrow> Fulfilled lib
      | Pending \<Rightarrow> Pending
      | Rejected cdnError \<Rightarrow>
          (case fst (loadPdfJs en (snd (convertPdfToImage_cdn en w))) of
             Fulfilled lib \<Rightarrow> Fulfilled (Some lib)
           | Pending \<Rightarrow> Pending
           | Rejected localError \<Rightarrow>
               Rejected (ErrorObj ''Error'' (''Failed to load PDF.js: '' @ js_message localError))))"
  by (cases "convertPdfToImage_cdn en w"; cases "loadPdfJs en (snd (convertPdfToImage_cdn en w))")
     (simp add: convertPdfToImage_acquire_def split: promise.splits)

lemma convertPdfToImage_result:
  "isPdf f \<Longrightarrow>
   fst (convertPdfToImage en w (AFile f)) =
     (case fst (convertPdfToImage_acquire en w) of
        Rejected t \<Rightarrow> Fulfilled (failed (errorMessage t))
      | Pending \<Rightarrow> Pending
      | Fulfilled None \<Rightarrow> Fulfilled (failed ''PDF.js library failed to load'')
      | Fulfilled (Some lib) \<Rightarrow>
          (case convertPdfToImage_pipeline en f of
             Fulfilled p \<Rightarrow> p
           | Pending \<Rightarrow> Pending
           | Rejected err \<Rightarrow> Fulfilled (failed (errorMessage err))))"
  by (cases "convertPdfToImage_acquire en w")
     (simp add: convertPdfToImage_def convertPdfToImage_try_def
      split: promise.splits option.splits)

lemma convertPdfToImage_invalid:
  "convertPdfToImage en w NotAFile = (Fulfilled (failed ''Invalid file provided''), w)"
  by (simp add: convertPdfToImage_def convertPdfToImage_try_def)

lemma convertPdfToImage_rejects_other_types:
  "\<not> isPdf f \<Longrightarrow>
     convertPdfToImage en w (AFile f) = (Fulfilled (failed ''File is not a PDF''), w)"
  by (simp add: convertPdfToImage_def convertPdfToImage_try_def)

text \<open>With the engine on the global binding a call acquires nothing: the world is left as
  it was.\<close>

lemma convertPdfToImage_present:
  "window_pdfjsLib w \<noteq> None \<Longrightarrow> snd (convertPdfToImage en w inp) = w"
proof -
  assume a: "window_pdfjsLib w \<noteq> None"
  then have "has_window w \<longrightarrow> (\<exists>lib. fst (convertPdfToImage_cdn en w) = Fulfilled lib)"
    by (auto simp add: convertPdfToImage_cdn_def)
  moreover have "\<not> has_window w \<longrightarrow> fst (convertPdfToImage_cdn en w) = Fulfilled None"
    by (simp add: convertPdfToImage_cdn_def)
  ultimately obtain lib where "fst (convertPdfToImage_cdn en w) = Fulfilled lib" by blast
  with a show ?thesis
    by (simp add: convertPdfToImage_world convertPdfToImage_acquire_world
        convertPdfToImage_cdn_present split: js_input.splits)
qed

text \<open>Where a rejection can come from: \<open>convertPdfToImageSimple\<close> is settled only by
  \<^verbatim>\<open>resolve\<close>, and \<open>convertPdfToImage\<close> ends rejected only when \<^verbatim>\<open>toBlob\<close> throws.\<close>

lemma convertPdfToImageSimple_never_rejects:
  "fst (convertPdfToImageSimple en w f) \<noteq> Rejected t"
  by (simp add: convertPdfToImageSimple_def Let_def
      split: option.splits promise.splits script_outcome.splits)

lemma convertPdfToImage_toBlob_Rejected:
  "convertPdfToImage_toBlob en f = Rejected t \<Longrightarrow> toBlob en = ToBlobRaises t"
  by (auto simp add: convertPdfToImage_toBlob_def
      split: toBlob_outcome.splits option.splits attempt.splits)

lemma convertPdfToImage_pipeline_Rejected:
  "convertPdfToImage_pipeline en f = Fulfilled (Rejected t) \<Longrightarrow> toBlob en = ToBlobRaises t"
  by (auto simp add: convertPdfToImage_pipeline_def failed_def
      dest: convertPdfToImage_toBlob_Rejected split: promise.splits if_splits)

lemma convertPdfToImage_Rejected:
  assumes "fst (convertPdfToImage en w inp) = Rejected t"
  shows "toBlob en = ToBlobRaises t"
proof (cases inp)
  case NotAFile
  with assms show ?thesis by (simp add: convertPdfToImage_invalid)
next
  case (AFile f)
  show ?thesis
  proof (cases "isPdf f")
    case False
    with assms AFile show ?thesis by (simp add: convertPdfToImage_rejects_other_types)
  next
    case True
    with assms AFile have "convertPdfToImage_pipeline en f = Fulfilled (Rejected t)"
      by (auto simp add: convertPdfToImage_result split: promise.splits option.splits)
    then show ?thesis by (rule convertPdfToImage_pipeline_Rejected)
  qed
qed

lemma success_file_name:
  assumes "fst (convertPdfToImage en w (AFile f)) = Fulfilled r
           \<or> fst (convertPdfToImageSimple en w f) = Fulfilled r
           \<or> performConversion en w f = Fulfilled r"
    and "file' r = Some g"
  shows "file_name g = image_name (file_name f)"
proof -
  from assms(1) consider
    (resilient) "fst (convertPdfToImage en w (AFile f)) = Fulfilled r"
    | (simple) "fst (convertPdfToImageSimple en w f) = Fulfilled r"
    | (perform) "performConversion en w f = Fulfilled r"
    by blast
  then have "(\<exists>msg. r = failed msg) \<or> (\<exists>b ident. r = converted f b ident)"
  proof cases
    case resilient
    from convertPdfToImage_shape [OF this] show ?thesis by auto
  next
    case simple
    from convertPdfToImageSimple_shape [OF this] show ?thesis .
  next
    case perform
    from performConversion_shape [OF this] show ?thesis .
  qed
  with assms(2) show ?thesis
    by (auto simp add: failed_def converted_def image_file_def)
qed

text \<open>The synchronous part of a call is the beginning of the whole call: the trace of the
  whole call extends the trace at the first suspension.\<close>

lemma convertPdfToImage_start_world:
  "convertPdfToImage_start en w inp =
     (case inp of NotAFile \<Rightarrow> w
      | AFile f \<Rightarrow> if isPdf f then w\<lparr>events := events (snd (convertPdfToImage_cdn en w))\<rparr> else w)"
  by (auto simp add: convertPdfToImage_start_def convertPdfToImage_cdn_events append_script_def
      split: js_input.splits option.splits script_outcome.splits)

lemma convertPdfToImage_start_prefix:
  "\<exists>evs. events (snd (convertPdfToImage en w inp)) = events (convertPdfToImage_start en w inp) @ evs"
proof (cases "\<exists>f. inp = AFile f \<and> isPdf f")
  case True
  then have s: "events (convertPdfToImage_start en w inp) = events (snd (convertPdfToImage_cdn en w))"
    by (auto simp add: convertPdfToImage_start_world)
  from True have w: "snd (convertPdfToImage en w inp) = snd (convertPdfToImage_acquire en w)"
    by (auto simp add: convertPdfToImage_world)
  show ?thesis
  proof (cases "fst (convertPdfToImage_cdn en w)")
    case (Rejected t)
    then have "snd (convertPdfToImage_acquire en w) = snd (loadPdfJs en (snd (convertPdfToImage_cdn en w)))"
      by (simp add: convertPdfToImage_acquire_world)
    with loadPdfJs_extends [of en "snd (convertPdfToImage_cdn en w)"] show ?thesis
      unfolding s w by auto
  next
    case (Fulfilled lib)
    then show ?thesis unfolding s w by (simp add: convertPdfToImage_acquire_world)
  next
    case Pending
    then show ?thesis unfolding s w by (simp add: convertPdfToImage_acquire_world)
  qed
next
  case False
  then have "convertPdfToImage_start en w inp = w" and "snd (convertPdfToImage en w inp) = w"
    by (auto simp add: convertPdfToImage_start_world convertPdfToImage_world split: js_input.splits)
  then show ?thesis by simp
qed

text \<open>Two calls started one after the other on a page without the engine each inject the
  script, whatever the files are.\<close>

lemma two_starts_inject_two_scripts:
  assumes "has_window w" and "window_pdfjsLib w = None" and "isPdf f" and "isPdf g"
    and "\<not> inject_raises (cdn_script en1)" and "\<not> inject_raises (cdn_script en2)"
  shows "events (convertPdfToImage_start en2 (convertPdfToImage_start en1 w (AFile f)) (AFile g)) =
           events w @ [ScriptAppended cdn_url, ScriptAppended cdn_url]"
  using assms
  by (cases "cdn_script en1"; cases "cdn_script en2")
     (simp_all add: convertPdfToImage_start_def append_script_def)

text \<open>Once a promise is stored in \<open>loadPromise\<close> and no engine is stored in
  \<open>pdfjsLib\<close>, every later call of \<open>loadPdfJs\<close> returns that promise and does nothing
  else.\<close>

lemma loadPdfJs_returns_stored_promise:
  "pdfjsLib w = None \<Longrightarrow> loadPromise w = Some p \<Longrightarrow> loadPdfJs en w = (p, w)"
  by (simp add: loadPdfJs_def)

section \<open>The claims\<close>

text \<open>
  Claim C1. Whatever the collaborators answer and whatever the state of the page, a result
  returned by \<open>convertPdfToImage\<close>, by \<open>convertPdfToImageSimple\<close> or by
  \<open>performConversion\<close> is a success (non-empty URL, a file, no error) or a failure (an
  error, the empty URL, no file), and never both or neither.
\<close>

theorem results_have_exactly_one_shape:
  "(\<forall>r. fst (convertPdfToImage en w inp) = Fulfilled r \<longrightarrow> exactly_one_shape r) \<and>
   (\<forall>r. fst (convertPdfToImageSimple en w f) = Fulfilled r \<longrightarrow> exactly_one_shape r) \<and>
   (\<forall>r. performConversion en w f = Fulfilled r \<longrightarrow> exactly_one_shape r)"
proof (intro conjI allI impI)
  fix r assume "fst (convertPdfToImage en w inp) = Fulfilled r"
  from convertPdfToImage_shape [OF this] show "exactly_one_shape r"
    by (auto simp add: exactly_one_shape_failed exactly_one_shape_converted)
next
  fix r assume "fst (convertPdfToImageSimple en w f) = Fulfilled r"
  from convertPdfToImageSimple_shape [OF this] show "exactly_one_shape r"
    by (auto simp add: exactly_one_shape_failed exactly_one_shape_converted)
next
  fix r assume "performConversion en w f = Fulfilled r"
  from performConversion_shape [OF this] show "exactly_one_shape r"
    by (auto simp add: exactly_one_shape_failed exactly_one_shape_converted)
qed

theorem results_have_exactly_one_shape_witness:
  "fst (convertPdfToImage working fresh_world (AFile report_pdf)) =
     Fulfilled (converted report_pdf png ''http://localhost:3000/5c1d'') \<and>
   exactly_one_shape (converted report_pdf png ''http://localhost:3000/5c1d'') \<and>
   is_success (converted report_pdf png ''http://localhost:3000/5c1d'') \<and>
   fst (convertPdfToImageSimple not_a_document fresh_world notes_txt) =
     Fulfilled (failed ''Conversion error: InvalidPDFException: Invalid PDF structure.'') \<and>
   exactly_one_shape (failed ''Conversion error: InvalidPDFException: Invalid PDF structure.'') \<and>
   is_failure (failed ''Conversion error: InvalidPDFException: Invalid PDF structure.'') \<and>
   performConversion working (fresh_world\<lparr>window_pdfjsLib := Some script_engine\<rparr>) report_pdf =
     Fulfilled (converted report_pdf png ''http://localhost:3000/5c1d'')"
proof -
  note t = results_have_exactly_one_shape
  have "exactly_one_shape (converted report_pdf png ''http://localhost:3000/5c1d'')"
    using t [of working fresh_world "AFile report_pdf"] working_converts by blast
  moreover have "exactly_one_shape (failed ''Conversion error: InvalidPDFException: Invalid PDF structure.'')"
    using t [where en = not_a_document and w = fresh_world and f = notes_txt]
      not_a_document_simple by blast
  moreover have "is_success (converted report_pdf png ''http://localhost:3000/5c1d'')"
    by (simp add: is_success_def converted_def blob_url_def)
  moreover have "is_failure (failed ''Conversion error: InvalidPDFException: Invalid PDF structure.'')"
    by (simp add: is_failure_def failed_def)
  ultimately show ?thesis
    using working_converts not_a_document_simple working_performs by simp
qed

text \<open>
  Claim C2. The \<^verbatim>\<open>try\<close> and \<^verbatim>\<open>catch\<close> around the body of \<open>convertPdfToImage\<close> and of
  \<open>convertPdfToImageSimple\<close> are there to turn every fault into a failure result, and
  three faults get past them. When \<^verbatim>\<open>canvas.toBlob\<close> throws, the promise returned at
  line 204 is rejected, and since it is returned without \<^verbatim>\<open>await\<close> the rejection passes
  \<^verbatim>\<open>catch (err)\<close> of line 245: the call of \<open>convertPdfToImage\<close> ends rejected. When an
  injected script fires its load event without binding \<^verbatim>\<open>window.pdfjsLib\<close>, line 119 or
  line 285 throws inside the event handler and the call is never settled. When
  \<^verbatim>\<open>new File\<close> throws, the callback of lines 352-370 has no \<^verbatim>\<open>try\<close> and the call of
  \<open>convertPdfToImageSimple\<close> is never settled, where the callback of lines 217-238 catches
  the same throw and \<open>convertPdfToImage\<close> returns a failure. In the load handler of
  \<open>convertPdfToImageSimple\<close> a throwing \<^verbatim>\<open>toBlob\<close> is not caught either.
\<close>

theorem faults_get_past_the_catch:
  "fst (convertPdfToImage toBlob_throws fresh_world (AFile report_pdf)) =
     Rejected (ErrorObj ''SecurityError'' ''The operation is insecure.'')
   \<and> fst (convertPdfToImage binds_nothing fresh_world (AFile report_pdf)) = Pending
   \<and> fst (convertPdfToImageSimple binds_nothing fresh_world report_pdf) = Pending
   \<and> fst (convertPdfToImageSimple newFile_throws fresh_world report_pdf) = Pending
   \<and> fst (convertPdfToImage newFile_throws fresh_world (AFile report_pdf)) =
     Fulfilled (failed ''Failed to create image file: TypeError: Illegal constructor'')
   \<and> fst (convertPdfToImageSimple toBlob_throws fresh_world report_pdf) = Pending"
  by (simp add: model_defs data_defs)

text \<open>
  Claim C3. A file that is not a PDF by type or by name is turned away by
  \<open>convertPdfToImage\<close> before any acquisition (lemma \<open>convertPdfToImage_rejects_other_types\<close>).
  \<open>convertPdfToImageSimple\<close> has no such check: for \<^verbatim>\<open>notes.txt\<close> of type
  \<^verbatim>\<open>text/plain\<close> on a fresh page it injects the cdnjs script and hands the file to the
  engine, and the failure it returns is the engine's, not the wrong-type one.
\<close>

theorem simple_entry_point_skips_type_check:
  "isPdf notes_txt = False
   \<and> fst (convertPdfToImageSimple not_a_document fresh_world notes_txt) =
       Fulfilled (failed ''Conversion error: InvalidPDFException: Invalid PDF structure.'')
   \<and> events (snd (convertPdfToImageSimple not_a_document fresh_world notes_txt)) =
       [ScriptAppended cdnjs_url]"
  by (simp add: model_defs data_defs endsWith_def toLowerCase_def lower_char_def)




text \<open>
  Claim C5. Two calls of \<open>convertPdfToImage\<close> issued one after the other before the engine
  is loaded: each finds the global binding missing and injects its own script, so two
  script elements are appended where the claim allows one.
\<close>

theorem concurrent_calls_inject_two_scripts:
  "events (convertPdfToImage_start working
      (convertPdfToImage_start working fresh_world (AFile report_pdf)) (AFile report_pdf)) =
     [ScriptAppended cdn_url, ScriptAppended cdn_url]"
  by (simp add: model_defs data_defs)

text \<open>
  Claim C6. After an acquisition in which every strategy failed, \<open>loadPromise\<close> still
  holds the rejected promise (and \<open>isLoading\<close> is still set when the fallback script fired
  its error event). A later call of \<open>loadPdfJs\<close>, even with collaborators that now work,
  returns that rejection and runs no strategy: the world is unchanged. So a conversion that
  succeeds on a fresh page (the CDN unreachable, the module importable) fails after the
  failed one, without a new import.
\<close>

theorem rejected_acquisition_is_kept:
  "loadPromise (snd (convertPdfToImage nothing_loads fresh_world (AFile report_pdf))) =
     Some (Rejected (NonError ''[object Event]''))
   \<and> isLoading (snd (convertPdfToImage nothing_loads fresh_world (AFile report_pdf))) = True
   \<and> loadPdfJs working (snd (convertPdfToImage nothing_loads fresh_world (AFile report_pdf))) =
     (Rejected (NonError ''[object Event]''),
      snd (convertPdfToImage nothing_loads fresh_world (AFile report_pdf)))
   \<and> loadPromise (snd (convertPdfToImage fallback_throws fresh_world (AFile report_pdf))) =
     Some (Rejected (ErrorObj ''TypeError'' ''Failed to fetch dynamically imported module''))
   \<and> isLoading (snd (convertPdfToImage fallback_throws fresh_world (AFile report_pdf))) = False
   \<and> loadPdfJs working (snd (convertPdfToImage fallback_throws fresh_world (AFile report_pdf))) =
     (Rejected (ErrorObj ''TypeError'' ''Failed to fetch dynamically imported module''),
      snd (convertPdfToImage fallback_throws fresh_world (AFile report_pdf)))
   \<and> fst (convertPdfToImage cdn_down fresh_world (AFile report_pdf)) =
     Fulfilled (converted report_pdf png ''http://localhost:3000/5c1d'')
   \<and> fst (convertPdfToImage cdn_down
        (snd (convertPdfToImage nothing_loads fresh_world (AFile report_pdf))) (AFile report_pdf)) =
     Fulfilled (failed ''Failed to convert PDF: Failed to load PDF.js: undefined'')
   \<and> emitted (snd (convertPdfToImage nothing_loads fresh_world (AFile report_pdf)))
       (snd (convertPdfToImage cdn_down
         (snd (convertPdfToImage nothing_loads fresh_world (AFile report_pdf))) (AFile report_pdf))) =
     [ScriptAppended cdn_url]"
  by (simp add: model_defs data_defs)

text \<open>
  Claim C7. Two calls of \<open>convertPdfToImage\<close> on the same file, one after the other, with
  the jsDelivr host unreachable and the module importable: both succeed, and the second
  call injects the script again although the engine is cached in \<open>pdfjsLib\<close>, because
  line 110 looks only at \<^verbatim>\<open>window.pdfjsLib\<close>. When the host answers again at the second
  call, that call loads a second engine from the script and leaves two engines on the
  page. The claim allows one acquisition and no strategy in the second call.
\<close>

theorem second_call_injects_script_again:
  "fst (convertPdfToImage cdn_down fresh_world (AFile report_pdf)) =
     Fulfilled (converted report_pdf png ''http://localhost:3000/5c1d'')
   \<and> pdfjsLib (snd (convertPdfToImage cdn_down fresh_world (AFile report_pdf))) =
     Some (module_engine\<lparr>workerSrc := module_worker_url module_engine\<rparr>)
   \<and> fst (convertPdfToImage cdn_down
        (snd (convertPdfToImage cdn_down fresh_world (AFile report_pdf))) (AFile report_pdf)) =
     Fulfilled (converted report_pdf png ''http://localhost:3000/5c1d'')
   \<and> emitted (snd (convertPdfToImage cdn_down fresh_world (AFile report_pdf)))
       (snd (convertPdfToImage cdn_down
         (snd (convertPdfToImage cdn_down fresh_world (AFile report_pdf))) (AFile report_pdf))) =
     [ScriptAppended cdn_url]
   \<and> events (snd (convertPdfToImage cdn_down
         (snd (convertPdfToImage cdn_down fresh_world (AFile report_pdf))) (AFile report_pdf))) =
     [ScriptAppended cdn_url, ModuleImport, ScriptAppended cdn_url]
   \<and> window_pdfjsLib (snd (convertPdfToImage working
         (snd (convertPdfToImage cdn_down fresh_world (AFile report_pdf))) (AFile report_pdf))) =
     Some (script_engine\<lparr>workerSrc := cdn_worker_url\<rparr>)
   \<and> pdfjsLib (snd (convertPdfToImage working
         (snd (convertPdfToImage cdn_down fresh_world (AFile report_pdf))) (AFile report_pdf))) =
     Some (module_engine\<lparr>workerSrc := module_worker_url module_engine\<rparr>)"
  by (simp add: model_defs data_defs)

text \<open>
  Claim C8. When a conversion succeeds, the name of the output file is the source name
  without a trailing \<^verbatim>\<open>.pdf\<close> in any letter case, followed by \<^verbatim>\<open>.png\<close> once; a source
  name without that suffix is kept whole. A source named \<^verbatim>\<open>report.PDF\<close> gives
  \<^verbatim>\<open>report.png\<close>.
\<close>

theorem output_name_strips_pdf_suffix:
  assumes "fst (convertPdfToImage en w (AFile f)) = Fulfilled r
           \<or> fst (convertPdfToImageSimple en w f) = Fulfilled r
           \<or> performConversion en w f = Fulfilled r"
    and "file' r = Some g"
  shows "(\<forall>base ext. file_name f = base @ ext \<and> toLowerCase ext = ''.pdf''
            \<longrightarrow> file_name g = base @ ''.png'')
         \<and> (\<not> endsWith (toLowerCase (file_name f)) ''.pdf'' \<longrightarrow> file_name g = file_name f @ ''.png'')
         \<and> (file_name f = ''report.PDF'' \<longrightarrow> file_name g = ''report.png'')"
proof -
  have n: "file_name g = image_name (file_name f)"
    using assms by (rule success_file_name)
  have "image_name ''report.PDF'' = ''report.png''"
    by (simp add: image_name_def replace_pdf_suffix_def)
  with n show ?thesis
    by (auto simp add: image_name_def replace_pdf_suffix_strips replace_pdf_suffix_keeps)
qed

theorem output_name_strips_pdf_suffix_witness:
  "fst (convertPdfToImage working fresh_world (AFile report_pdf)) =
     Fulfilled (converted report_pdf png ''http://localhost:3000/5c1d'')
   \<and> file' (converted report_pdf png ''http://localhost:3000/5c1d'') = Some (image_file report_pdf png)
   \<and> file_name report_pdf = ''report.PDF''
   \<and> file_name (image_file report_pdf png) = ''report.png''"
proof -
  have a: "fst (convertPdfToImage working fresh_world (AFile report_pdf)) =
             Fulfilled (converted report_pdf png ''http://localhost:3000/5c1d'')
           \<or> fst (convertPdfToImageSimple working fresh_world report_pdf) =
             Fulfilled (converted report_pdf png ''http://localhost:3000/5c1d'')
           \<or> performConversion working fresh_world report_pdf =
             Fulfilled (converted report_pdf png ''http://localhost:3000/5c1d'')"
    using working_converts by simp
  have b: "file' (converted report_pdf png ''http://localhost:3000/5c1d'') =
             Some (image_file report_pdf png)"
    by (simp add: converted_def)
  have n: "file_name report_pdf = ''report.PDF''"
    by (simp add: report_pdf_def)
  from output_name_strips_pdf_suffix [OF a b] n
  have "file_name (image_file report_pdf png) = ''report.png''" by blast
  with working_converts b n show ?thesis by simp
qed

text \<open>
  Claim C9. In \<open>loadPdfJs\<close>, when the import is rejected and the fallback script fires its
  load event without binding \<^verbatim>\<open>window.pdfjsLib\<close>, the promise is never settled and stays
  stored in \<open>loadPromise\<close>; a call of \<open>convertPdfToImage\<close> that reaches this path (its
  first script has failed) never returns.
\<close>

theorem fallback_load_without_binding_never_settles:
  assumes "module_import en = Rejected err" and "fallback_script en = Loaded None"
    and "has_window w" and "window_pdfjsLib w = None"
    and "pdfjsLib w = None" and "loadPromise w = None"
  shows "fst (loadPdfJs en w) = Pending
         \<and> loadPromise (snd (loadPdfJs en w)) = Some Pending
         \<and> (script_failed (cdn_script en) \<and> isPdf f
              \<longrightarrow> fst (convertPdfToImage en w (AFile f)) = Pending)"
proof -
  have l: "fst (loadPdfJs en w') = Pending \<and> loadPromise (snd (loadPdfJs en w')) = Some Pending"
    if "has_window w'" "window_pdfjsLib w' = None" "pdfjsLib w' = None" "loadPromise w' = None"
    for w'
    using that assms(1,2)
    by (simp add: loadPdfJs_def loadPdfJs_executor_def append_script_def script_ran_def Let_def)
  have "fst (convertPdfToImage en w (AFile f)) = Pending"
    if "script_failed (cdn_script en)" "isPdf f"
  proof -
    from that(1) assms(3,4) have "\<exists>t. fst (convertPdfToImage_cdn en w) = Rejected t"
      by - (cases "cdn_script en";
          simp add: convertPdfToImage_cdn_def append_script_def Let_def)
    then obtain t where c: "fst (convertPdfToImage_cdn en w) = Rejected t" ..
    note r = convertPdfToImage_cdn_Rejected [OF c]
    from r assms(5,6) have "fst (loadPdfJs en (snd (convertPdfToImage_cdn en w))) = Pending"
      by (intro l [THEN conjunct1]) simp_all
    with c have "fst (convertPdfToImage_acquire en w) = Pending"
      by (simp add: convertPdfToImage_acquire_result)
    with that(2) show ?thesis
      by (simp add: convertPdfToImage_result)
  qed
  with l [OF assms(3-6)] show ?thesis by blast
qed

theorem fallback_load_without_binding_never_settles_witness:
  "module_import fallback_binds_nothing =
     Rejected (ErrorObj ''TypeError'' ''Failed to fetch dynamically imported module'')
   \<and> fallback_script fallback_binds_nothing = Loaded None
   \<and> has_window fresh_world \<and> window_pdfjsLib fresh_world = None
   \<and> pdfjsLib fresh_world = None \<and> loadPromise fresh_world = None
   \<and> script_failed (cdn_script fallback_binds_nothing) \<and> isPdf report_pdf
   \<and> fst (loadPdfJs fallback_binds_nothing fresh_world) = Pending
   \<and> loadPromise (snd (loadPdfJs fallback_binds_nothing fresh_world)) = Some Pending
   \<and> fst (convertPdfToImage fallback_binds_nothing fresh_world (AFile report_pdf)) = Pending"
proof -
  have a: "module_import fallback_binds_nothing =
      Rejected (ErrorObj ''TypeError'' ''Failed to fetch dynamically imported module'')"
    and b: "fallback_script fallback_binds_nothing = Loaded None"
    and s: "script_failed (cdn_script fallback_binds_nothing)"
    by (simp_all add: fallback_binds_nothing_def nothing_loads_def cdn_down_def working_def)
  have c: "has_window fresh_world" and d: "window_pdfjsLib fresh_world = None"
    and e: "pdfjsLib fresh_world = None" and g: "loadPromise fresh_world = None"
    by (simp_all add: fresh_world_def)
  have p: "isPdf report_pdf"
    by (simp add: isPdf_def report_pdf_def)
  from fallback_load_without_binding_never_settles [OF a b c d e g, of report_pdf] s p
  show ?thesis using a b c d e g by simp
qed

text \<open>
  Claim C10. Only one trailing \<^verbatim>\<open>.pdf\<close> is removed: a source whose name ends in two of
  them keeps the inner one, so \<^verbatim>\<open>a.pdf.pdf\<close> gives \<^verbatim>\<open>a.pdf.png\<close>; a source accepted by
  its media type whose name has no such suffix keeps its whole name, so \<^verbatim>\<open>doc\<close> gives
  \<^verbatim>\<open>doc.png\<close>.
\<close>

theorem output_name_strips_one_suffix_only:
  assumes "fst (convertPdfToImage en w (AFile f)) = Fulfilled r
           \<or> fst (convertPdfToImageSimple en w f) = Fulfilled r
           \<or> performConversion en w f = Fulfilled r"
    and "file' r = Some g"
  shows "(\<forall>base inner ext. file_name f = base @ inner @ ext \<and> toLowerCase inner = ''.pdf''
              \<and> toLowerCase ext = ''.pdf'' \<longrightarrow> file_name g = base @ inner @ ''.png'')
         \<and> (file_name f = ''a.pdf.pdf'' \<longrightarrow> file_name g = ''a.pdf.png'')
         \<and> (file_type f = ''application/pdf'' \<and> \<not> endsWith (toLowerCase (file_name f)) ''.pdf''
              \<longrightarrow> file_name g = file_name f @ ''.png'')
         \<and> (file_type f = ''application/pdf'' \<and> file_name f = ''doc'' \<longrightarrow> file_name g = ''doc.png'')"
proof -
  have n: "file_name g = image_name (file_name f)"
    using assms by (rule success_file_name)
  have a: "image_name ''a.pdf.pdf'' = ''a.pdf.png''"
    by (simp add: image_name_def replace_pdf_suffix_def)
  have d: "image_name ''doc'' = ''doc.png''"
    by (simp add: image_name_def replace_pdf_suffix_def)
  have "\<And>base inner ext. toLowerCase ext = ''.pdf'' \<Longrightarrow>
          image_name (base @ inner @ ext) = base @ inner @ ''.png''"
    using replace_pdf_suffix_strips [of _ "_ @ _"] by (simp add: image_name_def)
  with n a d show ?thesis
    by (auto simp add: image_name_def replace_pdf_suffix_keeps)
qed

theorem output_name_strips_one_suffix_only_witness:
  "fst (convertPdfToImage working fresh_world (AFile a_pdf_pdf)) =
     Fulfilled (converted a_pdf_pdf png ''http://localhost:3000/5c1d'')
   \<and> file' (converted a_pdf_pdf png ''http://localhost:3000/5c1d'') = Some (image_file a_pdf_pdf png)
   \<and> file_name a_pdf_pdf = ''a.pdf.pdf''
   \<and> file_name (image_file a_pdf_pdf png) = ''a.pdf.png''
   \<and> fst (convertPdfToImage working fresh_world (AFile doc)) =
     Fulfilled (converted doc png ''http://localhost:3000/5c1d'')
   \<and> file' (converted doc png ''http://localhost:3000/5c1d'') = Some (image_file doc png)
   \<and> file_type doc = ''application/pdf'' \<and> file_name doc = ''doc''
   \<and> file_name (image_file doc png) = ''doc.png''"
proof -
  have a: "fst (convertPdfToImage working fresh_world (AFile a_pdf_pdf)) =
             Fulfilled (converted a_pdf_pdf png ''http://localhost:3000/5c1d'')
           \<or> fst (convertPdfToImageSimple working fresh_world a_pdf_pdf) =
             Fulfilled (converted a_pdf_pdf png ''http://localhost:3000/5c1d'')
           \<or> performConversion working fresh_world a_pdf_pdf =
             Fulfilled (converted a_pdf_pdf png ''http://localhost:3000/5c1d'')"
    using working_converts_a_pdf_pdf by simp
  have b: "file' (converted a_pdf_pdf png ''http://localhost:3000/5c1d'') =
             Some (image_file a_pdf_pdf png)"
    by (simp add: converted_def)
  have n: "file_name a_pdf_pdf = ''a.pdf.pdf''"
    by (simp add: a_pdf_pdf_def)
  from output_name_strips_one_suffix_only [OF a b] n
  have r1: "file_name (image_file a_pdf_pdf png) = ''a.pdf.png''" by blast
  have a': "fst (convertPdfToImage working fresh_world (AFile doc)) =
             Fulfilled (converted doc png ''http://localhost:3000/5c1d'')
           \<or> fst (convertPdfToImageSimple working fresh_world doc) =
             Fulfilled (converted doc png ''http://localhost:3000/5c1d'')
           \<or> performConversion working fresh_world doc =
             Fulfilled (converted doc png ''http://localhost:3000/5c1d'')"
    using working_converts_doc by simp
  have b': "file' (converted doc png ''http://localhost:3000/5c1d'') = Some (image_file doc png)"
    by (simp add: converted_def)
  have n': "file_type doc = ''application/pdf'' \<and> file_name doc = ''doc''"
    by (simp add: doc_def)
  from output_name_strips_one_suffix_only [OF a' b'] n'
  have r2: "file_name (image_file doc png) = ''doc.png''" by blast
  from working_converts_a_pdf_pdf working_converts_doc b b' n n' r1 r2
  show ?thesis by simp
qed

end
